theory Spec2Isabelle
  imports Complex_Main "HOL-Library.AList"
begin

section \<open>Python values\<close>

text \<open>
  A Python float is the real it denotes, an infinity or a NaN.  Comparisons with a NaN
  are false, as in Python.
\<close>

datatype pyfloat = Fin real | PosInf | NegInf | NaN

fun float_le :: "pyfloat \<Rightarrow> pyfloat \<Rightarrow> bool" where
  "float_le NaN _ = False"
| "float_le _ NaN = False"
| "float_le NegInf _ = True"
| "float_le _ PosInf = True"
| "float_le (Fin a) (Fin b) = (a \<le> b)"
| "float_le (Fin _) NegInf = False"
| "float_le PosInf _ = False"

fun float_gt :: "pyfloat \<Rightarrow> pyfloat \<Rightarrow> bool" where
  "float_gt NaN _ = False"
| "float_gt _ NaN = False"
| "float_gt PosInf PosInf = False"
| "float_gt PosInf _ = True"
| "float_gt _ PosInf = False"
| "float_gt NegInf _ = False"
| "float_gt (Fin _) NegInf = True"
| "float_gt (Fin a) (Fin b) = (a > b)"

text \<open>
  The finite floats are the IEEE doubles.  \<open>nearest_double\<close> is the conversion of a
  number to the nearest of them, ties to the even mantissa, which Python applies to a
  float literal of the source and to the text given to \<open>float\<close>: a mantissa of at most
  53 bits (\<open>round_half_even\<close> of the number scaled by a power of two), a least exponent
  of -1074, and the infinity from \<open>2 ^ 1024\<close> on.
\<close>

definition pow2 :: "int \<Rightarrow> real" where
  "pow2 e = (if 0 \<le> e then 2 ^ nat e else 1 / 2 ^ nat (- e))"

fun log2floor :: "nat \<Rightarrow> nat" where
  "log2floor n = (if n < 2 then 0 else Suc (log2floor (n div 2)))"

declare log2floor.simps [simp del]

text \<open>For a positive \<open>x\<close>, the exponent \<open>e\<close> with \<open>2 ^ e \<le> x < 2 ^ (e + 1)\<close>.\<close>

definition binade :: "real \<Rightarrow> int" where
  "binade x =
     (if 1 \<le> x then int (log2floor (nat \<lfloor>x\<rfloor>))
      else - int (Suc (log2floor (nat \<lceil>1 / x\<rceil> - 1))))"

definition round_half_even :: "real \<Rightarrow> int" where
  "round_half_even r =
     (let f = \<lfloor>r\<rfloor>; d = r - of_int f
      in if d < 1 / 2 then f else if 1 / 2 < d then f + 1
         else if even f then f else f + 1)"

definition nearest_double_pos :: "real \<Rightarrow> pyfloat" where
  "nearest_double_pos x =
     (let e = max (binade x - 52) (- 1074);
          y = of_int (round_half_even (x / pow2 e)) * pow2 e
      in if 2 ^ 1024 \<le> y then PosInf else Fin y)"

definition nearest_double :: "real \<Rightarrow> pyfloat" where
  "nearest_double x =
     (if x = 0 then Fin 0
      else if 0 < x then nearest_double_pos x
      else (case nearest_double_pos (- x) of Fin y \<Rightarrow> Fin (- y) | _ \<Rightarrow> NegInf))"

text \<open>The float literal \<open>0.005\<close> of the source: the double nearest to 5/1000.\<close>

definition literal_0_005 :: pyfloat where
  "literal_0_005 = Fin (5764607523034235 / 2 ^ 60)"

text \<open>
  The values an info dict holds: text, the flag \<open>True\<close>, \<open>None\<close>; \<open>get_number\<close>
  adds floats.
\<close>

datatype pyval = PStr string | PBool bool | PNone | PFloat pyfloat

datatype pyerr = ValueError | TypeError | KeyError | IndexError | AttributeError

text \<open>
  The builtin \<open>float(s)\<close> on text is a parameter \<open>pf\<close> of the model: \<open>None\<close> is its
  ValueError.  \<open>float(True)\<close> is 1.0 and \<open>float(False)\<close> is 0.0; \<open>float(None)\<close> raises
  TypeError.
\<close>

type_synonym float_parser = "string \<Rightarrow> pyfloat option"

text \<open>\<open>s.split(c)\<close> for a one-character separator: never the empty list.\<close>

fun split_on :: "char \<Rightarrow> string \<Rightarrow> string list" where
  "split_on c [] = [[]]"
| "split_on c (x # xs) =
     (if x = c then [] # split_on c xs
      else (let r = split_on c xs in (x # hd r) # tl r))"

text \<open>\<open>c.join(xs)\<close>.\<close>

fun join_on :: "char \<Rightarrow> string list \<Rightarrow> string" where
  "join_on c [] = []"
| "join_on c [x] = x"
| "join_on c (x # y # ys) = x @ c # join_on c (y # ys)"

section \<open>vcf\_info.py: numeric coercion and the per-field checks\<close>

text \<open>
  The loop of \<open>get_number\<close> over the comma-separated pieces: it stops at the first piece
  that parses; when none does, the loop variable is left holding the last piece.
\<close>

fun get_number_loop :: "float_parser \<Rightarrow> pyval \<Rightarrow> string list \<Rightarrow> pyval" where
  "get_number_loop pf v [] = v"
| "get_number_loop pf v (p # ps) =
     (case pf p of Some x \<Rightarrow> PFloat x | None \<Rightarrow> get_number_loop pf (PStr p) ps)"

fun get_number :: "float_parser \<Rightarrow> pyval \<Rightarrow> pyval" where
  "get_number pf (PStr s) =
     (case pf s of
        Some x \<Rightarrow> PFloat x
      | None \<Rightarrow> get_number_loop pf (PStr s) (split_on CHR '','' s))"
| "get_number pf (PBool b) = PFloat (Fin (if b then 1 else 0))"
| "get_number pf PNone = PNone"
| "get_number pf (PFloat x) = PFloat x"

fun is_number :: "float_parser \<Rightarrow> pyval \<Rightarrow> bool" where
  "is_number pf PNone = False"
| "is_number pf (PStr s) = (pf s \<noteq> None)"
| "is_number pf (PBool b) = True"
| "is_number pf (PFloat x) = True"

text \<open>
  The configured second component of a filter: \<open>None\<close>, a collection of texts, or a
  number.
\<close>

datatype filter_values = FNone | FList "string list" | FNum pyfloat

text \<open>
  \<open>value in filter_values\<close>: a text is in the collection when it equals one of its
  members; a flag or \<open>None\<close> equals no text.  A number is not iterable.
\<close>

fun passes_list :: "pyval \<Rightarrow> filter_values \<Rightarrow> pyerr + bool" where
  "passes_list v FNone = Inr False"
| "passes_list v (FList xs) = Inr (case v of PStr s \<Rightarrow> s \<in> set xs | _ \<Rightarrow> False)"
| "passes_list v (FNum x) = Inl TypeError"

text \<open>
  \<open>value > filter_values\<close> raises TypeError unless both sides are numbers; the result
  of the comparison is dropped.
\<close>

fun passes_smaller_than :: "float_parser \<Rightarrow> pyval \<Rightarrow> filter_values \<Rightarrow> bool" where
  "passes_smaller_than pf v fv =
     (case (get_number pf v, fv) of
        (PFloat x, FNum b) \<Rightarrow> float_le x b \<and> is_number pf (PFloat x)
      | _ \<Rightarrow> True)"

section \<open>vcf\_info.py: the record and its info dict\<close>

text \<open>
  The \<open>tags\<close> dict is read at the keys \<open>"consequence"\<close> and \<open>"MAX_MAF"\<close> only.
\<close>

record tags =
  consequence :: "string list"
  MAX_MAF :: "string list"

text \<open>
  The info dict is an association list with distinct keys in insertion order;
  \<open>d[k] = v\<close> is \<open>AList.update k v d\<close>, which keeps the place of a key already there.
  \<open>get_chrom\<close>, \<open>get_position\<close>, \<open>get_mutation_id\<close> and \<open>self.filter\<close> belong to the
  variant class this mixin is combined with; the record holds what they return.
\<close>

type_synonym info_dict = "(string \<times> pyval) list"

record vcfinfo =
  chrom :: string
  position :: string
  mutation_id :: string
  filter_status :: string
  vtags :: tags
  info :: info_dict
  gene :: pyval
  show_fail_point :: bool

text \<open>One entry of the INFO column, as the body of the loop in \<open>add_info\<close> reads it.\<close>

definition parse_item :: "string \<Rightarrow> string \<times> pyval" where
  "parse_item item =
     (if CHR ''='' \<in> set item then
        (let parts = split_on CHR ''='' item in
         if length parts = 2 then (parts ! 0, PStr (parts ! 1))
         else (let pos = length (takeWhile (\<lambda>c. c \<noteq> CHR ''='') item)
               in (take pos item, PStr (drop (pos + 1) item))))
      else (item, PBool True))"

definition add_item :: "info_dict \<Rightarrow> string \<Rightarrow> info_dict" where
  "add_item d item = (case parse_item item of (key, v) \<Rightarrow> AList.update key v d)"

definition add_gene_from_info :: "info_dict \<Rightarrow> pyval" where
  "add_gene_from_info d =
     (case map_of d ''HGNC'' of
        None \<Rightarrow> (case map_of d ''gene'' of Some g \<Rightarrow> g | None \<Rightarrow> PNone)
      | Some g \<Rightarrow> g)"

definition consequence_step :: "info_dict \<Rightarrow> string \<Rightarrow> info_dict" where
  "consequence_step d c =
     (case map_of d c of Some v \<Rightarrow> AList.update ''CQ'' v d | None \<Rightarrow> d)"

definition add_consequence :: "string list \<Rightarrow> info_dict \<Rightarrow> info_dict" where
  "add_consequence cs d =
     (let d' = foldl consequence_step d cs
      in if map_of d' ''CQ'' = None then AList.update ''CQ'' PNone d' else d')"

text \<open>The loop of \<open>add_info\<close> over the entries of the INFO text.\<close>

definition parse_info :: "string \<Rightarrow> info_dict" where
  "parse_info info_values = foldl add_item [] (split_on CHR '';'' info_values)"

definition add_info :: "vcfinfo \<Rightarrow> string \<Rightarrow> tags \<Rightarrow> vcfinfo" where
  "add_info s info_values tgs =
     (let d1 = AList.update ''FILTER'' (PStr (filter_status s)) (parse_info info_values)
      in s\<lparr>vtags := tgs,
            gene := add_gene_from_info d1,
            info := add_consequence (consequence tgs) d1\<rparr>)"

section \<open>vcf\_info.py: the maximum allele frequency and the compound rule\<close>

text \<open>
  One turn of the loop of \<open>find_max_allele_frequency\<close>.  A \<open>number\<close> that passes
  \<open>is_number\<close> is a float (lemma \<open>is_number_get_number\<close> below), so the last branch
  of the inner case is never taken.
\<close>

definition max_step :: "float_parser \<Rightarrow> info_dict \<Rightarrow> pyfloat \<Rightarrow> string \<Rightarrow> pyfloat" where
  "max_step pf d m key =
     (case map_of d key of
        None \<Rightarrow> m
      | Some v \<Rightarrow>
          (let number = get_number pf v in
           if \<not> is_number pf number then m
           else (case number of
                   PFloat x \<Rightarrow> if float_gt x m then x else m
                 | _ \<Rightarrow> m)))"

text \<open>
  The source returns \<open>str(max_allele_frequency)\<close>, or \<open>"NA"\<close> when the maximum is still
  the initial -100, and its caller reads the text back with \<open>float\<close>.  Python prints a
  float as the shortest text that reads back as the same float, so the model hands over
  the float itself, and \<open>None\<close> for \<open>"NA"\<close>.
\<close>

definition find_max_allele_frequency ::
  "float_parser \<Rightarrow> info_dict \<Rightarrow> string list \<Rightarrow> pyfloat option" where
  "find_max_allele_frequency pf d populations =
     (let m = foldl (max_step pf d) (Fin (- 100)) populations
      in if m = Fin (- 100) then None else Some m)"

definition starts_with :: "string \<Rightarrow> string \<Rightarrow> bool" where
  "starts_with s p = (take (length p) s = p)"

text \<open>
  The first condition of \<open>passes_multiple_filter\<close>, evaluated left to right;
  \<open>startswith\<close> is a method of text only.
\<close>

definition benign_missense :: "vcfinfo \<Rightarrow> pyval \<Rightarrow> pyerr + bool" where
  "benign_missense s cq =
     (if cq \<noteq> PStr ''missense_variant'' then Inr False
      else (case map_of (info s) ''PolyPhen'' of
              None \<Rightarrow> Inr False
            | Some (PStr p) \<Rightarrow> Inr (starts_with p ''benign'')
            | Some _ \<Rightarrow> Inl AttributeError))"

definition passes_multiple_filter :: "float_parser \<Rightarrow> vcfinfo \<Rightarrow> pyerr + bool" where
  "passes_multiple_filter pf s =
     (let mut = mutation_id s in
      case map_of (info s) ''CQ'' of
        None \<Rightarrow> Inl KeyError
      | Some cq \<Rightarrow>
          (case benign_missense s cq of
             Inl e \<Rightarrow> Inl e
           | Inr True \<Rightarrow> Inr False
           | Inr False \<Rightarrow>
               if mut = ''NA'' \<and> cq = PStr ''missense_variant'' then
                 (let maf = (case find_max_allele_frequency pf (info s) (MAX_MAF (vtags s)) of
                               None \<Rightarrow> Fin 0
                             | Some x \<Rightarrow> x)
                  in if float_gt maf literal_0_005 then Inr False else Inr True)
               else Inr True))"

section \<open>vcf\_info.py: the evaluator\<close>

text \<open>
  What \<open>show_fail\<close> is called with: the key, the value, the condition and the filter
  values; the compound rule reports empty text in the last three places.
\<close>

datatype shown = ShownFilter filter_values | ShownText string

type_synonym fail_report = "string \<times> pyval \<times> string \<times> shown"

type_synonym filters = "string \<Rightarrow> (string \<times> filter_values) option"

text \<open>
  The loop of \<open>passes_filters\<close> over the keys of the info dict.  \<open>None\<close> is
  \<open>passes = True\<close> at the end of the loop; \<open>Some r\<close> is the \<open>break\<close>, with the loop
  variables of the failing key.  A condition that is neither \<open>"list"\<close> nor
  \<open>"smaller_than"\<close> leaves \<open>passes\<close> as it is.
\<close>

fun check_fields :: "float_parser \<Rightarrow> filters \<Rightarrow> info_dict \<Rightarrow> pyerr + fail_report option" where
  "check_fields pf fs [] = Inr None"
| "check_fields pf fs ((key, v) # rest) =
     (case fs key of
        None \<Rightarrow> check_fields pf fs rest
      | Some (condition, fv) \<Rightarrow>
          (case (if condition = ''list'' then passes_list v fv
                 else if condition = ''smaller_than'' then Inr (passes_smaller_than pf v fv)
                 else Inr True) of
             Inl e \<Rightarrow> Inl e
           | Inr False \<Rightarrow> Inr (Some (key, v, condition, ShownFilter fv))
           | Inr True \<Rightarrow> check_fields pf fs rest))"

definition multiple_report :: fail_report where
  "multiple_report =
     (''multiplefilter:cq=missense,mutation!=NA,maf>0.005'', PStr [], [], ShownText [])"

text \<open>
  \<open>passes_filters\<close> returns its boolean; the model returns with it the object after
  the call and what was printed.
\<close>

definition passes_filters ::
  "float_parser \<Rightarrow> vcfinfo \<Rightarrow> filters \<Rightarrow> pyerr + (bool \<times> vcfinfo \<times> fail_report list)" where
  "passes_filters pf s fs =
     (let s1 = s\<lparr>show_fail_point := (chrom s = ''19'' \<and> position s = ''50881821'')\<rparr>;
          out = (\<lambda>r. if show_fail_point s1 then [r] else [])
      in case check_fields pf fs (info s1) of
           Inl e \<Rightarrow> Inl e
         | Inr (Some r) \<Rightarrow> Inr (False, s1, out r)
         | Inr None \<Rightarrow>
             (case passes_multiple_filter pf s1 of
                Inl e \<Rightarrow> Inl e
              | Inr True \<Rightarrow> Inr (True, s1, [])
              | Inr False \<Rightarrow> Inr (False, s1, out multiple_report)))"

section \<open>load\_vcfs.py: variants, persons and the parental variant\<close>

text \<open>
  A variant object, as \<open>load_vcfs.py\<close> reads it: its attributes and what \<open>is_cnv\<close>,
  \<open>get_key\<close> and \<open>get_cnv_inheritance\<close> return; \<open>v_info\<close> is \<open>str(var.info)\<close> and
  \<open>v_vcf_line\<close> what \<open>add_vcf_line\<close> stored.  A key is the tuple (chromosome,
  position) that \<open>include_variant\<close> builds from a line, or a longer tuple for a CNV.
\<close>

datatype variant_key = SnvKey string int | CnvKey string int "string list"

type_synonym line = "string list"

record variant =
  v_is_cnv :: bool
  v_key :: variant_key
  v_chrom :: string
  v_position :: int
  v_variant_id :: string
  v_ref_allele :: string
  v_alt_alleles :: "string list"
  v_qual :: string
  v_filter :: string
  v_info :: string
  v_cnv_inheritance :: string
  v_vcf_line :: "line option"

text \<open>
  A person: what \<open>get_gender\<close>, \<open>is_male\<close> and \<open>is_female\<close> return, and the lines of
  the person's VCF after the header, each stripped and split at tabs.
\<close>

record person =
  p_gender :: string
  p_is_male :: bool
  p_is_female :: bool
  p_lines :: "line list"

text \<open>
  The classes \<open>SNV\<close> and \<open>CNV\<close> are not under src/: a variant that
  \<open>get_parental_var\<close> builds is the constructor call itself, the class with the
  eleven arguments in their order.
\<close>

datatype var_class = SNV | CNV

record constructor_call =
  c_chrom :: string
  c_position :: int
  c_variant_id :: string
  c_ref_allele :: string
  c_alts :: string
  c_qual :: string
  c_filter :: string
  c_info :: string
  c_format_keys :: string
  c_sample :: string
  c_gender :: string

datatype parental_var = Existing variant | Default var_class constructor_call

text \<open>The loop of \<open>get_parental_var\<close>: the first parental variant with the child's key.\<close>

fun find_parental :: "variant \<Rightarrow> variant list \<Rightarrow> variant option" where
  "find_parental var [] = None"
| "find_parental var (parental # rest) =
     (if \<not> v_is_cnv var \<and> v_key var = v_key parental then Some parental
      else find_parental var rest)"

definition default_call :: "variant \<Rightarrow> string \<Rightarrow> string \<Rightarrow> string \<Rightarrow> person \<Rightarrow> constructor_call" where
  "default_call var alts keys sample parent =
     \<lparr>c_chrom = v_chrom var, c_position = v_position var, c_variant_id = v_variant_id var,
      c_ref_allele = v_ref_allele var, c_alts = alts, c_qual = v_qual var,
      c_filter = v_filter var, c_info = v_info var, c_format_keys = keys,
      c_sample = sample, c_gender = p_gender parent\<rparr>"

definition cnv_alts :: "variant \<Rightarrow> person \<Rightarrow> string list" where
  "cnv_alts var parent =
     (let inh = v_cnv_inheritance var in
      if p_is_male parent \<and> inh \<in> set [''paternal'', ''biparental''] then v_alt_alleles var
      else if p_is_female parent \<and> inh \<in> set [''maternal'', ''biparental'']
      then v_alt_alleles var
      else [''<REF>''])"

definition get_parental_var :: "variant \<Rightarrow> variant list \<Rightarrow> person \<Rightarrow> parental_var" where
  "get_parental_var var parental_vars parent =
     (case find_parental var parental_vars of
        Some parental \<Rightarrow> Existing parental
      | None \<Rightarrow>
          if v_is_cnv var
          then Default CNV
                 (default_call var (join_on CHR '','' (cnv_alts var parent))
                    ''INHERITANCE'' ''uncertain'' parent)
          else Default SNV
                 (default_call var (join_on CHR '','' (v_alt_alleles var)) ''GT'' ''0/0'' parent))"

section \<open>load\_vcfs.py: loading one person\<close>

text \<open>
  Parameters of the loader, for what is not under src/: \<open>pint\<close> is the builtin \<open>int\<close>
  on text (\<open>None\<close> is its ValueError); \<open>construct_variant\<close> is given the
  line, the gender and the three further arguments \<open>(mnvs, sum_x_lr2, parents)\<close> as
  one value; \<open>passes\<close> is the method \<open>passes_filters\<close> of the variant built.
\<close>

type_synonym int_parser = "string \<Rightarrow> int option"

type_synonym 'c constructor = "line \<Rightarrow> string \<Rightarrow> 'c \<Rightarrow> pyerr + variant"

text \<open>The key \<open>(line[0], int(line[1]))\<close>, with the errors of the two subscripts and of \<open>int\<close>.\<close>

definition line_key :: "int_parser \<Rightarrow> line \<Rightarrow> pyerr + variant_key" where
  "line_key pint line =
     (case line of
        [] \<Rightarrow> Inl IndexError
      | [c] \<Rightarrow> Inl IndexError
      | c # p # rest \<Rightarrow> (case pint p of None \<Rightarrow> Inl ValueError | Some n \<Rightarrow> Inr (SnvKey c n)))"

definition include_variant ::
  "int_parser \<Rightarrow> 'c constructor \<Rightarrow> (variant \<Rightarrow> pyerr + bool) \<Rightarrow> line \<Rightarrow>
   variant_key set option \<Rightarrow> string \<Rightarrow> 'c \<Rightarrow> pyerr + bool" where
  "include_variant pint construct_variant passes line child_variants gender extra =
     (case child_variants of
        Some keys \<Rightarrow>
          (case line_key pint line of Inl e \<Rightarrow> Inl e | Inr key \<Rightarrow> Inr (key \<in> keys))
      | None \<Rightarrow>
          (case construct_variant line gender extra of Inl e \<Rightarrow> Inl e | Inr var \<Rightarrow> passes var))"

text \<open>
  The body of the \<open>try\<close> in \<open>open_individual\<close>: the variant to append, if any.
\<close>

definition try_line ::
  "int_parser \<Rightarrow> 'c constructor \<Rightarrow> (variant \<Rightarrow> pyerr + bool) \<Rightarrow> line \<Rightarrow>
   variant_key set option \<Rightarrow> string \<Rightarrow> 'c \<Rightarrow> pyerr + variant option" where
  "try_line pint construct_variant passes line child_variants gender extra =
     (case include_variant pint construct_variant passes line child_variants gender extra of
        Inl e \<Rightarrow> Inl e
      | Inr False \<Rightarrow> Inr None
      | Inr True \<Rightarrow>
          (case construct_variant line gender extra of
             Inl e \<Rightarrow> Inl e
           | Inr var \<Rightarrow> Inr (Some (var\<lparr>v_vcf_line := Some line\<rparr>))))"

text \<open>
  The \<open>except ValueError\<close> branch: its condition compares the line with the debug
  coordinate, reading \<open>line[1]\<close> and parsing it only when the chromosome matches, and
  may raise itself.  What it prints is not part of what the function returns and is left
  out; the result is whether it prints.
\<close>

definition value_error_handler ::
  "int_parser \<Rightarrow> string option \<Rightarrow> int option \<Rightarrow> line \<Rightarrow> pyerr + bool" where
  "value_error_handler pint debug_chrom debug_pos line =
     (case line of
        [] \<Rightarrow> Inl IndexError
      | c # rest \<Rightarrow>
          if Some c \<noteq> debug_chrom then Inr False
          else (case rest of
                  [] \<Rightarrow> Inl IndexError
                | p # _ \<Rightarrow>
                    (case pint p of
                       None \<Rightarrow> Inl ValueError
                     | Some n \<Rightarrow> Inr (Some n = debug_pos))))"

text \<open>The loop of \<open>open_individual\<close> over the lines, with the list of variants so far.\<close>

fun scan_lines ::
  "int_parser \<Rightarrow> 'c constructor \<Rightarrow> (variant \<Rightarrow> pyerr + bool) \<Rightarrow> string option \<Rightarrow> int option \<Rightarrow>
   variant_key set option \<Rightarrow> string \<Rightarrow> 'c \<Rightarrow> line list \<Rightarrow> variant list \<Rightarrow>
   pyerr + variant list" where
  "scan_lines pint construct_variant passes dc dp child_variants gender extra [] variants =
     Inr variants"
| "scan_lines pint construct_variant passes dc dp child_variants gender extra (line # rest) variants =
     (case try_line pint construct_variant passes line child_variants gender extra of
        Inr None \<Rightarrow>
          scan_lines pint construct_variant passes dc dp child_variants gender extra rest variants
      | Inr (Some var) \<Rightarrow>
          scan_lines pint construct_variant passes dc dp child_variants gender extra rest
            (variants @ [var])
      | Inl ValueError \<Rightarrow>
          (case value_error_handler pint dc dp line of
             Inl e \<Rightarrow> Inl e
           | Inr printed \<Rightarrow>
               scan_lines pint construct_variant passes dc dp child_variants gender extra rest
                 variants)
      | Inl e \<Rightarrow> Inl e)"

definition open_individual ::
  "int_parser \<Rightarrow> 'c constructor \<Rightarrow> (variant \<Rightarrow> pyerr + bool) \<Rightarrow> string option \<Rightarrow> int option \<Rightarrow>
   person option \<Rightarrow> variant_key set option \<Rightarrow> 'c \<Rightarrow> pyerr + variant list" where
  "open_individual pint construct_variant passes dc dp individual child_variants extra =
     (case individual of
        None \<Rightarrow> Inr []
      | Some ind \<Rightarrow>
          scan_lines pint construct_variant passes dc dp child_variants (p_gender ind) extra
            (p_lines ind) [])"

text \<open>
  A family, and \<open>load_trio\<close> up to its call of \<open>combine_trio_variants\<close>: the variants
  of the child, the mother and the father.  The further arguments of
  \<open>construct_variant\<close> are \<open>(mnvs, sum_x_lr2, parents)\<close>, all \<open>None\<close> for a parent.
\<close>

record family =
  f_child :: person
  f_mother :: "person option"
  f_father :: "person option"
  f_has_parents :: bool

type_synonym ('m, 'x) extra = "'m option \<times> 'x option \<times> bool option"


section \<open>A decimal reader for the examples\<close>

text \<open>
  \<open>dec_float\<close> reads an optional sign, digits and at most one point, with a digit on
  one side of it at least; on such text Python's \<open>float\<close> gives the float nearest to
  the same number.  It stands for \<open>float\<close> in the examples only; the theorems hold
  for every reader.
\<close>

definition digit_of :: "char \<Rightarrow> nat option" where
  "digit_of = map_of (zip ''0123456789'' [0, 1, 2, 3, 4, 5, 6, 7, 8, 9])"

fun digits_val :: "nat \<Rightarrow> string \<Rightarrow> nat option" where
  "digits_val acc [] = Some acc"
| "digits_val acc (c # cs) =
     (case digit_of c of None \<Rightarrow> None | Some d \<Rightarrow> digits_val (10 * acc + d) cs)"

definition dec_unsigned :: "string \<Rightarrow> real option" where
  "dec_unsigned body =
     (let ip = takeWhile (\<lambda>c. c \<noteq> CHR ''.'') body;
          fp = drop (length ip + 1) body
      in if ip = [] \<and> fp = [] then None
         else (case (digits_val 0 ip, digits_val 0 fp) of
                 (Some a, Some b) \<Rightarrow> Some (real a + real b / 10 ^ length fp)
               | _ \<Rightarrow> None))"

definition dec_float :: float_parser where
  "dec_float s =
     (case s of
        [] \<Rightarrow> None
      | c # r \<Rightarrow>
          if c = CHR ''-'' then map_option (\<lambda>x. Fin (- x)) (dec_unsigned r)
          else if c = CHR ''+'' then map_option Fin (dec_unsigned r)
          else map_option Fin (dec_unsigned s))"

text \<open>
  \<open>double_float\<close> is Python's \<open>float\<close> on the same text: the double nearest to the
  number that \<open>dec_float\<close> reads.
\<close>

definition double_float :: float_parser where
  "double_float s =
     (case dec_float s of Some (Fin x) \<Rightarrow> Some (nearest_double x) | r \<Rightarrow> r)"

section \<open>The numeric coercion, as the specification words it\<close>

text \<open>
  Try the whole value; failing that, the pieces between commas in turn, taking the first
  that parses; fail when none does.  A flag reads as 1.0 or 0.0 and \<open>None\<close> does not
  read.
\<close>

fun first_parsed :: "float_parser \<Rightarrow> string list \<Rightarrow> pyfloat option" where
  "first_parsed pf [] = None"
| "first_parsed pf (p # ps) = (case pf p of Some x \<Rightarrow> Some x | None \<Rightarrow> first_parsed pf ps)"

fun coerce_number :: "float_parser \<Rightarrow> pyval \<Rightarrow> pyfloat option" where
  "coerce_number pf (PStr s) =
     (case pf s of Some x \<Rightarrow> Some x | None \<Rightarrow> first_parsed pf (split_on CHR '','' s))"
| "coerce_number pf (PBool b) = Some (Fin (if b then 1 else 0))"
| "coerce_number pf PNone = None"
| "coerce_number pf (PFloat x) = Some x"

section \<open>The compound rule, as the specification words it\<close>

text \<open>
  The frequencies the compound rule looks at: the configured population fields that the
  record holds and that coerce to a number, in the configured order.
\<close>

definition population_frequencies :: "float_parser \<Rightarrow> info_dict \<Rightarrow> string list \<Rightarrow> pyfloat list" where
  "population_frequencies pf d populations =
     List.map_filter
       (\<lambda>key. case map_of d key of None \<Rightarrow> None | Some v \<Rightarrow> coerce_number pf v)
       populations"

text \<open>A benign prediction is present: the record holds a PolyPhen text starting with \<open>benign\<close>.\<close>

definition benign_prediction :: "info_dict \<Rightarrow> bool" where
  "benign_prediction d =
     (case map_of d ''PolyPhen'' of Some (PStr p) \<Rightarrow> starts_with p ''benign'' | _ \<Rightarrow> False)"

definition polyphen_is_text :: "info_dict \<Rightarrow> bool" where
  "polyphen_is_text d =
     (case map_of d ''PolyPhen'' of None \<Rightarrow> True | Some (PStr p) \<Rightarrow> True | Some _ \<Rightarrow> False)"

text \<open>
  Example records: a missense variant of unknown mutation identifier, with the given
  info entries added to its consequence.
\<close>

definition example_tags :: tags where
  "example_tags = \<lparr>consequence = [''VCQ'', ''CQ''], MAX_MAF = [''AFR_AF'', ''AF_MAX'']\<rparr>"

definition missense_record :: "info_dict \<Rightarrow> vcfinfo" where
  "missense_record extra =
     \<lparr>chrom = ''1'', position = ''1000'', mutation_id = ''NA'', filter_status = ''PASS'',
      vtags = example_tags,
      info = (''CQ'', PStr ''missense_variant'') # (''FILTER'', PStr ''PASS'') # extra,
      gene = PNone, show_fail_point = False\<rparr>"

section \<open>The consequence entry, in words\<close>

text \<open>
  The value of the last configured consequence tag, other than CQ itself, that the dict
  holds; with none of them held, what the dict itself has at CQ, and \<open>None\<close> when it
  has nothing there.
\<close>

definition consequence_value :: "string list \<Rightarrow> info_dict \<Rightarrow> pyval" where
  "consequence_value cs d =
     (let present = List.map_filter (map_of d) (filter (\<lambda>c. c \<noteq> ''CQ'') cs)
      in if present = [] then (case map_of d ''CQ'' of None \<Rightarrow> PNone | Some v \<Rightarrow> v)
         else last present)"

text \<open>The dict that \<open>add_info\<close> hands to \<open>add_consequence\<close>.\<close>

definition info_with_filter :: "vcfinfo \<Rightarrow> string \<Rightarrow> info_dict" where
  "info_with_filter s info_values =
     AList.update ''FILTER'' (PStr (filter_status s)) (parse_info info_values)"

text \<open>An example record at the coordinate the diagnostic trace is switched on for.\<close>

definition traced_record :: vcfinfo where
  "traced_record = (missense_record [(''AF_MAX'', PStr ''0.01'')])
     \<lparr>chrom := ''19'', position := ''50881821''\<rparr>"

definition af_filters :: filters where
  "af_filters = map_of [(''AF_MAX'', ''smaller_than'', FNum (Fin (1 / 1000)))]"

definition example_info_text :: string where
  "example_info_text = ''AC=2;DB;VCQ=missense_variant;PolyPhen=probably_damaging(0.99);X=a=b''"

section \<open>The parental lines that are kept, in words\<close>




section \<open>Examples for the loader\<close>

text \<open>
  \<open>dec_int\<close> reads an optional sign and digits, on which it agrees with \<open>int\<close>.
  \<open>example_constructor\<close> builds a simple variant from the ten columns of a line and
  raises ValueError for the genotype \<open>0/1\<close> of a male person on chromosome X.
\<close>

definition dec_nat :: "string \<Rightarrow> nat option" where
  "dec_nat s = (if s = [] then None else digits_val 0 s)"

definition dec_int :: int_parser where
  "dec_int s =
     (case s of
        [] \<Rightarrow> None
      | c # r \<Rightarrow>
          if c = CHR ''-'' then map_option (\<lambda>n. - int n) (dec_nat r)
          else if c = CHR ''+'' then map_option int (dec_nat r)
          else map_option int (dec_nat s))"

definition example_constructor :: "'c constructor" where
  "example_constructor line gender extra =
     (if length line < 10 then Inl IndexError
      else (case dec_int (line ! 1) of
              None \<Rightarrow> Inl ValueError
            | Some n \<Rightarrow>
                if gender = ''M'' \<and> line ! 0 = ''X'' \<and> line ! 9 = ''0/1'' then Inl ValueError
                else Inr \<lparr>v_is_cnv = False, v_key = SnvKey (line ! 0) n, v_chrom = line ! 0,
                          v_position = n, v_variant_id = line ! 2, v_ref_allele = line ! 3,
                          v_alt_alleles = split_on CHR '','' (line ! 4), v_qual = line ! 5,
                          v_filter = line ! 6, v_info = line ! 7, v_cnv_inheritance = [],
                          v_vcf_line = None\<rparr>))"

definition example_line :: "string \<Rightarrow> string \<Rightarrow> string \<Rightarrow> line" where
  "example_line c p sample = [c, p, ''.'', ''A'', ''G'', ''50'', ''PASS'', ''DP=10'', ''GT'', sample]"

definition example_variant :: "string \<Rightarrow> int \<Rightarrow> line \<Rightarrow> variant" where
  "example_variant c n line =
     \<lparr>v_is_cnv = False, v_key = SnvKey c n, v_chrom = c, v_position = n, v_variant_id = ''.'',
      v_ref_allele = ''A'', v_alt_alleles = [''G''], v_qual = ''50'', v_filter = ''PASS'',
      v_info = ''DP=10'', v_cnv_inheritance = [], v_vcf_line = Some line\<rparr>"


definition example_mother :: person where
  "example_mother =
     \<lparr>p_gender = ''F'', p_is_male = False, p_is_female = True,
      p_lines = [example_line ''2'' ''1000'' ''0/1'', example_line ''3'' ''77'' ''1/1'']\<rparr>"

definition example_father :: person where
  "example_father =
     \<lparr>p_gender = ''M'', p_is_male = True, p_is_female = False,
      p_lines = [example_line ''X'' ''200'' ''0/1'', example_line ''2'' ''1000'' ''0/0'']\<rparr>"

definition example_child :: person where
  "example_child =
     \<lparr>p_gender = ''M'', p_is_male = True, p_is_female = False,
      p_lines = [example_line ''2'' ''1000'' ''0/1'', example_line ''X'' ''200'' ''0/1'',
                 example_line ''X'' ''300'' ''1/1'']\<rparr>"

definition example_family :: family where
  "example_family =
     \<lparr>f_child = example_child, f_mother = Some example_mother,
      f_father = Some example_father, f_has_parents = True\<rparr>"

text \<open>A filter method that rejects every variant, and one that accepts every variant.\<close>

definition reject_all :: "variant \<Rightarrow> pyerr + bool" where
  "reject_all var = Inr False"

definition accept_all :: "variant \<Rightarrow> pyerr + bool" where
  "accept_all var = Inr True"

section \<open>Facts about the coercion\<close>

lemma split_on_nonempty: "split_on c s \<noteq> []"
  by (induction s) (auto simp: Let_def)

lemma get_number_loop_first_parsed:
  "get_number_loop pf v ps =
     (case first_parsed pf ps of
        Some x \<Rightarrow> PFloat x
      | None \<Rightarrow> if ps = [] then v else PStr (last ps))"
  by (induction ps arbitrary: v) (auto split: option.splits)

lemma first_parsed_None: "first_parsed pf ps = None \<Longrightarrow> p \<in> set ps \<Longrightarrow> pf p = None"
  by (induction ps) (auto split: option.splits)

text \<open>
  \<open>get_number\<close> returns the coerced float, and otherwise the last piece of the text (or
  \<open>None\<close> for \<open>None\<close>), which is not a number.
\<close>

lemma get_number_coerce:
  "get_number pf v =
     (case coerce_number pf v of
        Some x \<Rightarrow> PFloat x
      | None \<Rightarrow> (case v of PStr s \<Rightarrow> PStr (last (split_on CHR '','' s)) | _ \<Rightarrow> PNone))"
  by (cases v) (auto simp: get_number_loop_first_parsed split_on_nonempty split: option.splits)

lemma is_number_get_number:
  "is_number pf (get_number pf v) = (coerce_number pf v \<noteq> None)"
proof (cases "coerce_number pf v")
  case None
  show ?thesis
  proof (cases v)
    case (PStr s)
    with None have "first_parsed pf (split_on CHR '','' s) = None"
      by (auto split: option.splits)
    then have "pf (last (split_on CHR '','' s)) = None"
      using first_parsed_None split_on_nonempty last_in_set by metis
    with None PStr show ?thesis by (simp add: get_number_coerce)
  qed (use None in \<open>auto simp: get_number_coerce\<close>)
next
  case (Some x)
  then show ?thesis by (simp add: get_number_coerce)
qed

lemmas dec_float_defs = dec_float_def dec_unsigned_def digit_of_def

lemmas double_defs = double_float_def nearest_double_def nearest_double_pos_def binade_def
  round_half_even_def pow2_def log2floor.simps Let_def

text \<open>The literal of the source is the conversion of its own text.\<close>

lemma literal_0_005_nearest: "nearest_double (5 / 1000) = literal_0_005"
  by (simp add: double_defs literal_0_005_def)

lemma double_float_0_005: "double_float ''0.005'' = Some literal_0_005"
  by (simp add: double_defs dec_float_defs literal_0_005_def)

section \<open>The numeric upper bound\<close>

text \<open>
  C4.  Under a numeric upper bound \<open>b\<close>, \<open>passes_smaller_than\<close> passes exactly when the
  coercion of the value fails or the coerced number is at most \<open>b\<close>, where the coercion
  tries the whole value first and then the pieces between commas, taking the first that
  parses and failing only when none does.
\<close>

theorem passes_smaller_than_coerce:
  "passes_smaller_than pf v (FNum b) =
     (case coerce_number pf v of None \<Rightarrow> True | Some x \<Rightarrow> float_le x b)"
  by (cases "coerce_number pf v"; cases v) (auto simp: get_number_coerce)

text \<open>
  At a bound of 0.01: \<open>".,0.002"\<close> coerces to 0.002 and passes, \<open>"0.5"\<close> fails, and
  \<open>".,."\<close> does not coerce and passes.
\<close>

theorem passes_smaller_than_coerce_witness:
  "passes_smaller_than dec_float (PStr ''.,0.002'') (FNum (Fin (1 / 100)))
   \<and> \<not> passes_smaller_than dec_float (PStr ''0.5'') (FNum (Fin (1 / 100)))
   \<and> passes_smaller_than dec_float (PStr ''.,.'') (FNum (Fin (1 / 100)))"
  using passes_smaller_than_coerce [of dec_float "PStr ''.,0.002''" "Fin (1 / 100)"]
    passes_smaller_than_coerce [of dec_float "PStr ''0.5''" "Fin (1 / 100)"]
    passes_smaller_than_coerce [of dec_float "PStr ''.,.''" "Fin (1 / 100)"]
  by (simp add: dec_float_defs)

section \<open>The categorical membership\<close>

text \<open>
  C7.  \<open>passes_list\<close> with \<open>None\<close> or an empty collection as the allowed set returns
  False and raises nothing, whatever the value; with a collection it returns whether the
  value is one of its members.
\<close>

theorem passes_list_membership:
  "passes_list v FNone = Inr False
   \<and> passes_list v (FList []) = Inr False
   \<and> passes_list v (FList xs) = Inr (v \<in> PStr ` set xs)"
  by (cases v) auto

section \<open>The compound rule\<close>

lemma float_gt_NaN_right [simp]: "\<not> float_gt x NaN"
  by (cases x) auto

lemma float_gt_trans: "float_gt x m \<Longrightarrow> float_gt m t \<Longrightarrow> float_gt x t"
  by (cases x; cases m; cases t) auto

lemma float_gt_max: "\<not> float_gt x m \<Longrightarrow> float_gt x t \<Longrightarrow> m \<noteq> NaN \<Longrightarrow> float_gt m t"
  by (cases x; cases m; cases t) auto

lemma max_step_coerce:
  "max_step pf d m key =
     (case map_of d key of
        None \<Rightarrow> m
      | Some v \<Rightarrow> (case coerce_number pf v of
                     None \<Rightarrow> m
                   | Some x \<Rightarrow> if float_gt x m then x else m))"
proof (cases "map_of d key")
  case None
  then show ?thesis by (simp add: max_step_def)
next
  case (Some v)
  show ?thesis
  proof (cases "coerce_number pf v")
    case None
    with Some show ?thesis by (simp add: max_step_def Let_def is_number_get_number)
  next
    case (Some x)
    with \<open>map_of d key = Some v\<close> show ?thesis
      by (simp add: max_step_def Let_def is_number_get_number) (simp add: get_number_coerce)
  qed
qed

lemma max_step_not_NaN: "m \<noteq> NaN \<Longrightarrow> max_step pf d m key \<noteq> NaN"
  by (auto simp: max_step_coerce split: option.splits)

lemma foldl_max_step_gt:
  "m \<noteq> NaN \<Longrightarrow>
   float_gt (foldl (max_step pf d) m pops) t
     = (float_gt m t \<or> (\<exists>x \<in> set (population_frequencies pf d pops). float_gt x t))"
proof (induction pops arbitrary: m)
  case Nil
  then show ?case by (simp add: population_frequencies_def map_filter_simps)
next
  case (Cons key pops)
  have nn: "max_step pf d m key \<noteq> NaN" using Cons.prems by (rule max_step_not_NaN)
  show ?case
    unfolding foldl_Cons Cons.IH [OF nn]
    using Cons.prems
    by (auto simp: max_step_coerce population_frequencies_def map_filter_simps
             split: option.splits dest: float_gt_trans float_gt_max)
qed

lemma maf_gt:
  assumes "\<not> float_gt (Fin (- 100)) t" and "\<not> float_gt (Fin 0) t"
  shows "float_gt (case find_max_allele_frequency pf d pops of None \<Rightarrow> Fin 0 | Some x \<Rightarrow> x) t
     = (\<exists>x \<in> set (population_frequencies pf d pops). float_gt x t)"
proof -
  have *: "float_gt (foldl (max_step pf d) (Fin (- 100)) pops) t
     = (\<exists>x \<in> set (population_frequencies pf d pops). float_gt x t)"
    using assms(1) by (subst foldl_max_step_gt) auto
  show ?thesis
  proof (cases "foldl (max_step pf d) (Fin (- 100)) pops = Fin (- 100)")
    case True
    with * assms show ?thesis by (simp add: find_max_allele_frequency_def)
  next
    case False
    with * show ?thesis by (simp add: find_max_allele_frequency_def)
  qed
qed

lemma benign_missense_text:
  "polyphen_is_text (info s) \<Longrightarrow>
   benign_missense s cq = Inr (cq = PStr ''missense_variant'' \<and> benign_prediction (info s))"
  by (auto simp: benign_missense_def polyphen_is_text_def benign_prediction_def
           split: option.splits pyval.splits)

lemma passes_multiple_filter_text:
  assumes "map_of (info s) ''CQ'' = Some cq" and "polyphen_is_text (info s)"
  shows "passes_multiple_filter pf s =
     Inr (\<not> ((cq = PStr ''missense_variant'' \<and> benign_prediction (info s))
           \<or> (mutation_id s = ''NA'' \<and> cq = PStr ''missense_variant''
              \<and> (\<exists>x \<in> set (population_frequencies pf (info s) (MAX_MAF (vtags s))).
                    float_gt x literal_0_005))))"
proof -
  have t: "\<not> float_gt (Fin (- 100)) literal_0_005" "\<not> float_gt (Fin 0) literal_0_005"
    by (simp_all add: literal_0_005_def)
  show ?thesis
    using assms
    by (auto simp: passes_multiple_filter_def benign_missense_text Let_def maf_gt [OF t]
             split: bool.splits)
qed

lemma passes_multiple_filter_flag [simp]:
  "passes_multiple_filter pf (s\<lparr>show_fail_point := b\<rparr>) = passes_multiple_filter pf s"
proof -
  have "benign_missense (s\<lparr>show_fail_point := b\<rparr>) = benign_missense s"
    by (rule ext) (simp add: benign_missense_def)
  then show ?thesis
    by (simp add: passes_multiple_filter_def split: option.splits)
qed

lemma passes_filters_compound:
  "check_fields pf fs (info s) = Inr None \<Longrightarrow>
   map_sum id fst (passes_filters pf s fs) = passes_multiple_filter pf s"
  by (cases "passes_multiple_filter pf s")
     (auto simp: passes_filters_def Let_def split: bool.splits)

text \<open>
  C1, as the code has it.  On a record whose info holds CQ and whose PolyPhen entry, if
  there is one, is text, the compound rule rejects exactly when the consequence is
  \<open>missense_variant\<close> and a benign prediction is present, or the mutation identifier is
  \<open>"NA"\<close>, the consequence is \<open>missense_variant\<close> and one of the configured population
  frequencies of the record is greater than the float 0.005 (the maximum, taken as zero
  when none is present or parses, is greater than 0.005).  When all per-field checks
  pass, the evaluator returns what the compound rule returns.
\<close>

theorem compound_rule_rejects:
  assumes "map_of (info s) ''CQ'' = Some cq" and "polyphen_is_text (info s)"
  shows "passes_multiple_filter pf s =
     Inr (\<not> ((cq = PStr ''missense_variant'' \<and> benign_prediction (info s))
           \<or> (mutation_id s = ''NA'' \<and> cq = PStr ''missense_variant''
              \<and> (\<exists>x \<in> set (population_frequencies pf (info s) (MAX_MAF (vtags s))).
                    float_gt x literal_0_005))))
     \<and> (check_fields pf fs (info s) = Inr None \<longrightarrow>
          map_sum id fst (passes_filters pf s fs) = passes_multiple_filter pf s)"
  using passes_multiple_filter_text [OF assms] passes_filters_compound by blast

lemmas example_defs = missense_record_def example_tags_def

text \<open>
  A frequency of 0.01 rejects, 0.001 does not, a benign prediction rejects; and the
  evaluator rejects the first record after its bound of 0.1 has passed.
\<close>

theorem compound_rule_rejects_witness:
  "passes_multiple_filter double_float (missense_record [(''AF_MAX'', PStr ''0.01'')]) = Inr False
   \<and> passes_multiple_filter double_float (missense_record [(''AF_MAX'', PStr ''0.001'')]) = Inr True
   \<and> passes_multiple_filter double_float (missense_record [(''PolyPhen'', PStr ''benign(0.01)'')]) = Inr False
   \<and> map_sum id fst (passes_filters double_float (missense_record [(''AF_MAX'', PStr ''0.01'')])
        (map_of [(''AF_MAX'', ''smaller_than'', FNum (Fin (1 / 10)))])) = Inr False"
  using compound_rule_rejects [of "missense_record [(''AF_MAX'', PStr ''0.01'')]"
          "PStr ''missense_variant''" double_float
          "map_of [(''AF_MAX'', ''smaller_than'', FNum (Fin (1 / 10)))]"]
    compound_rule_rejects [of "missense_record [(''AF_MAX'', PStr ''0.001'')]"
          "PStr ''missense_variant''" double_float]
    compound_rule_rejects [of "missense_record [(''PolyPhen'', PStr ''benign(0.01)'')]"
          "PStr ''missense_variant''" double_float]
  by (simp add: example_defs polyphen_is_text_def benign_prediction_def starts_with_def
        population_frequencies_def map_filter_simps dec_float_defs double_defs
        literal_0_005_def)

text \<open>
  C1, as stated, fails: a missense record with the prediction \<open>benign(0.01)\<close> is rejected
  by the compound rule, which returns False as soon as its first condition holds.
\<close>

theorem compound_rule_benign_counterexample:
  "map_of (info (missense_record [(''PolyPhen'', PStr ''benign(0.01)'')])) ''CQ''
     = Some (PStr ''missense_variant'')
   \<and> benign_prediction (info (missense_record [(''PolyPhen'', PStr ''benign(0.01)'')]))
   \<and> passes_multiple_filter double_float (missense_record [(''PolyPhen'', PStr ''benign(0.01)'')])
       = Inr False"
  by (simp add: example_defs benign_prediction_def starts_with_def
        passes_multiple_filter_def benign_missense_def)

text \<open>
  C6.  On a missense record of unknown mutation identifier without a prediction, whose
  maximum population frequency is the float \<open>f\<close>, the compound rule passes exactly when
  \<open>f\<close> is at most the float 0.005 of the source, which is 5764607523034235 / 2^60: a
  frequency equal to 0.005 does not exceed the threshold, 0.0050001 does.
\<close>

theorem frequency_boundary:
  assumes "map_of (info s) ''CQ'' = Some (PStr ''missense_variant'')"
      and "map_of (info s) ''PolyPhen'' = None"
      and "mutation_id s = ''NA''"
      and "find_max_allele_frequency pf (info s) (MAX_MAF (vtags s)) = Some (Fin f)"
  shows "passes_multiple_filter pf s = Inr (f \<le> 5764607523034235 / 2 ^ 60)"
  using assms
  by (auto simp: passes_multiple_filter_def benign_missense_def literal_0_005_def)

text \<open>
  The two frequencies of the boundary, read from text as Python reads them: \<open>0.005\<close>
  is the float of the threshold itself and passes; \<open>0.0050001\<close> is the float
  720590351898087 / 2^57, which is greater, and is rejected.
\<close>

theorem frequency_boundary_witness:
  "passes_multiple_filter double_float (missense_record [(''AF_MAX'', PStr ''0.005'')]) = Inr True
   \<and> passes_multiple_filter double_float (missense_record [(''AF_MAX'', PStr ''0.0050001'')])
       = Inr False"
  using frequency_boundary [of "missense_record [(''AF_MAX'', PStr ''0.005'')]" double_float
          "5764607523034235 / 2 ^ 60"]
    frequency_boundary [of "missense_record [(''AF_MAX'', PStr ''0.0050001'')]" double_float
          "720590351898087 / 2 ^ 57"]
  by (simp add: example_defs find_max_allele_frequency_def max_step_def dec_float_defs
        double_defs)

section \<open>The evaluator and its diagnostic flag\<close>

lemma passes_multiple_filter_inputs:
  assumes "info s = info t" "vtags s = vtags t" "mutation_id s = mutation_id t"
  shows "passes_multiple_filter pf s = passes_multiple_filter pf t"
proof -
  have b: "benign_missense s = benign_missense t"
    using assms by (intro ext) (simp add: benign_missense_def)
  show ?thesis
    unfolding passes_multiple_filter_def b assms ..
qed

lemma passes_filters_boolean:
  "map_sum id fst (passes_filters pf s fs) =
     (case check_fields pf fs (info s) of
        Inl e \<Rightarrow> Inl e
      | Inr (Some r) \<Rightarrow> Inr False
      | Inr None \<Rightarrow> passes_multiple_filter pf s)"
proof -
  let ?s1 = "s\<lparr>show_fail_point := (chrom s = ''19'' \<and> position s = ''50881821'')\<rparr>"
  have pm: "passes_multiple_filter pf ?s1 = passes_multiple_filter pf s"
    by (rule passes_multiple_filter_inputs) simp_all
  show ?thesis
    unfolding passes_filters_def Let_def pm
    by (cases "passes_multiple_filter pf s")
       (simp_all split: sum.splits option.splits bool.splits)
qed

lemma passes_filters_state:
  assumes "passes_filters pf s fs = Inr (r, s', out)"
  shows "s' = s\<lparr>show_fail_point := (chrom s = ''19'' \<and> position s = ''50881821'')\<rparr>"
  using assms
  by (auto simp: passes_filters_def Let_def split: sum.splits option.splits bool.splits)

lemma passes_filters_flag:
  "passes_filters pf (s\<lparr>show_fail_point := b\<rparr>) fs = passes_filters pf s fs"
proof -
  have e: "s\<lparr>show_fail_point := b\<rparr>
      \<lparr>show_fail_point := (chrom (s\<lparr>show_fail_point := b\<rparr>) = ''19''
          \<and> position (s\<lparr>show_fail_point := b\<rparr>) = ''50881821'')\<rparr>
    = s\<lparr>show_fail_point := (chrom s = ''19'' \<and> position s = ''50881821'')\<rparr>"
    by simp
  show ?thesis
    unfolding passes_filters_def Let_def e ..
qed

text \<open>
  C8, as the code has it.  The boolean that \<open>passes_filters\<close> returns (or the error it
  raises) is a function of the info dict, the tags, the mutation identifier and the
  filters alone: two records that agree on these get the same result, whatever their
  coordinates and diagnostic flags, so the trace has no effect on it.  The call writes one
  attribute of the record, \<open>show_fail_point\<close>, which it sets from the coordinate before
  anything else; a second call on the record it leaves returns the same boolean, the same
  record and the same trace.
\<close>

theorem passes_filters_result:
  "(info s = info t \<and> vtags s = vtags t \<and> mutation_id s = mutation_id t \<longrightarrow>
      map_sum id fst (passes_filters pf s fs) = map_sum id fst (passes_filters pf t fs))
   \<and> (passes_filters pf s fs = Inr (r, s', out) \<longrightarrow>
        s' = s\<lparr>show_fail_point := (chrom s = ''19'' \<and> position s = ''50881821'')\<rparr>
        \<and> passes_filters pf s' fs = Inr (r, s', out))"
proof (intro conjI impI)
  assume "info s = info t \<and> vtags s = vtags t \<and> mutation_id s = mutation_id t"
  then show "map_sum id fst (passes_filters pf s fs) = map_sum id fst (passes_filters pf t fs)"
    using passes_multiple_filter_inputs [of s t pf]
    by (auto simp: passes_filters_boolean split: sum.splits option.splits)
next
  assume a: "passes_filters pf s fs = Inr (r, s', out)"
  then show s': "s' = s\<lparr>show_fail_point := (chrom s = ''19'' \<and> position s = ''50881821'')\<rparr>"
    by (rule passes_filters_state)
  have "passes_filters pf s' fs = passes_filters pf s fs"
    unfolding s' by (rule passes_filters_flag)
  with a show "passes_filters pf s' fs = Inr (r, s', out)" by simp
qed

text \<open>
  At the traced coordinate a frequency of 0.01 fails a bound of 0.001: the flag is set and
  the failing field reported; a second call gives the same, and the same record at
  another coordinate gets the same boolean.
\<close>

theorem passes_filters_result_witness:
  "passes_filters double_float traced_record af_filters
     = Inr (False, traced_record\<lparr>show_fail_point := True\<rparr>,
            [(''AF_MAX'', PStr ''0.01'', ''smaller_than'', ShownFilter (FNum (Fin (1 / 1000))))])
   \<and> passes_filters double_float (traced_record\<lparr>show_fail_point := True\<rparr>) af_filters
     = passes_filters double_float traced_record af_filters
   \<and> map_sum id fst (passes_filters double_float (missense_record [(''AF_MAX'', PStr ''0.01'')]) af_filters)
     = Inr False"
  using passes_filters_result [of traced_record "missense_record [(''AF_MAX'', PStr ''0.01'')]"
          double_float af_filters False "traced_record\<lparr>show_fail_point := True\<rparr>"
          "[(''AF_MAX'', PStr ''0.01'', ''smaller_than'', ShownFilter (FNum (Fin (1 / 1000))))]"]
  by (simp add: traced_record_def example_defs af_filters_def passes_filters_def
        dec_float_defs double_defs)

text \<open>
  C8, as stated, fails in its last part: the call changes the record.  At the traced
  coordinate the flag is False before the call and True after it.
\<close>

theorem passes_filters_flag_counterexample:
  "show_fail_point traced_record = False
   \<and> passes_filters double_float traced_record (\<lambda>k. None)
       = Inr (False, traced_record\<lparr>show_fail_point := True\<rparr>, [multiple_report])
   \<and> traced_record\<lparr>show_fail_point := True\<rparr> \<noteq> traced_record"
proof -
  have "show_fail_point traced_record = False"
    by (simp add: traced_record_def example_defs)
  moreover have "traced_record\<lparr>show_fail_point := True\<rparr> \<noteq> traced_record"
  proof
    assume "traced_record\<lparr>show_fail_point := True\<rparr> = traced_record"
    then have "show_fail_point (traced_record\<lparr>show_fail_point := True\<rparr>)
        = show_fail_point traced_record"
      by simp
    then show False by (simp add: traced_record_def example_defs)
  qed
  moreover have "passes_filters double_float traced_record (\<lambda>k. None)
       = Inr (False, traced_record\<lparr>show_fail_point := True\<rparr>, [multiple_report])"
    by (simp add: traced_record_def example_defs passes_filters_def Let_def
        passes_multiple_filter_def benign_missense_def find_max_allele_frequency_def
        max_step_def dec_float_defs double_defs literal_0_005_def)
  ultimately show ?thesis by blast
qed

section \<open>Parsing the INFO column\<close>

lemma split_on_no_sep: "c \<notin> set s \<Longrightarrow> split_on c s = [s]"
  by (induction s) (auto simp: Let_def)

lemma split_on_sep:
  "c \<in> set s \<Longrightarrow>
   split_on c s = takeWhile (\<lambda>x. x \<noteq> c) s # split_on c (tl (dropWhile (\<lambda>x. x \<noteq> c) s))"
  by (induction s) (auto simp: Let_def)

lemma split_on_length_one: "length (split_on c s) = Suc 0 \<Longrightarrow> c \<notin> set s"
proof (rule ccontr)
  assume l: "length (split_on c s) = Suc 0" and "\<not> c \<notin> set s"
  then have "c \<in> set s" by simp
  from split_on_sep [OF this] l
  have "split_on c (tl (dropWhile (\<lambda>x. x \<noteq> c) s)) = []" by simp
  then show False by (simp add: split_on_nonempty)
qed

lemma parse_item_flag: "CHR ''='' \<notin> set item \<Longrightarrow> parse_item item = (item, PBool True)"
  by (simp add: parse_item_def)

lemma parse_item_first_eq:
  assumes "CHR ''='' \<in> set item"
  shows "parse_item item =
     (takeWhile (\<lambda>c. c \<noteq> CHR ''='') item, PStr (tl (dropWhile (\<lambda>c. c \<noteq> CHR ''='') item)))"
proof (cases "length (split_on CHR ''='' item) = 2")
  case True
  let ?rest = "tl (dropWhile (\<lambda>c. c \<noteq> CHR ''='') item)"
  from True split_on_sep [OF assms]
  have "length (split_on CHR ''='' ?rest) = Suc 0" by simp
  then have "split_on CHR ''='' ?rest = [?rest]"
    by (intro split_on_no_sep split_on_length_one)
  with split_on_sep [OF assms] True assms show ?thesis
    by (simp add: parse_item_def Let_def)
next
  case False
  have "drop (Suc (length (takeWhile (\<lambda>c. c \<noteq> CHR ''='') item))) item
      = tl (dropWhile (\<lambda>c. c \<noteq> CHR ''='') item)"
    by (simp add: dropWhile_eq_drop tl_drop drop_Suc)
  with False assms show ?thesis
    by (simp add: parse_item_def Let_def takeWhile_eq_take [symmetric])
qed

lemma map_of_foldl_add_item:
  "map_of (foldl add_item d items) = map_of (rev (map parse_item items) @ d)"
proof (induction items arbitrary: d)
  case Nil
  show ?case by simp
next
  case (Cons item items)
  have "map_of (foldl add_item d (item # items))
      = map_of (rev (map parse_item items) @ add_item d item)"
    by (simp add: Cons.IH)
  also have "\<dots> = map_of (rev (map parse_item (item # items)) @ d)"
    by (cases "parse_item item")
       (simp add: add_item_def update_conv' map_add_def fun_eq_iff split: option.splits)
  finally show ?case .
qed

lemma map_of_parse_info:
  "map_of (parse_info text) = map_of (rev (map parse_item (split_on CHR '';'' text)))"
  by (simp add: parse_info_def map_of_foldl_add_item)

lemma map_of_consequence_step:
  "map_of (consequence_step d c) k =
     (if k = ''CQ'' \<and> c \<noteq> ''CQ'' \<and> map_of d c \<noteq> None then map_of d c else map_of d k)"
  by (auto simp: consequence_step_def update_conv' split: option.splits)

lemma map_of_foldl_consequence_other:
  "k \<noteq> ''CQ'' \<Longrightarrow> map_of (foldl consequence_step d cs) k = map_of d k"
  by (induction cs arbitrary: d) (simp_all add: map_of_consequence_step)

lemma map_filter_snoc:
  "List.map_filter f (xs @ [x]) =
     List.map_filter f xs @ (case f x of None \<Rightarrow> [] | Some y \<Rightarrow> [y])"
  by (induction xs) (auto simp: map_filter_simps split: option.splits)

lemma map_of_foldl_consequence_CQ:
  "map_of (foldl consequence_step d cs) ''CQ'' =
     (let present = List.map_filter (map_of d) (filter (\<lambda>c. c \<noteq> ''CQ'') cs)
      in if present = [] then map_of d ''CQ'' else Some (last present))"
proof (induction cs rule: rev_induct)
  case Nil
  show ?case by (simp add: map_filter_simps)
next
  case (snoc c cs)
  show ?case
  proof (cases "c = ''CQ''")
    case True
    with snoc show ?thesis by (simp add: map_of_consequence_step)
  next
    case False
    then have "map_of (foldl consequence_step d cs) c = map_of d c"
      by (rule map_of_foldl_consequence_other)
    with False snoc show ?thesis
      by (auto simp: map_of_consequence_step map_filter_snoc Let_def split: option.splits)
  qed
qed

lemma map_of_add_consequence_CQ:
  "map_of (add_consequence cs d) ''CQ'' = Some (consequence_value cs d)"
  by (auto simp: add_consequence_def consequence_value_def Let_def update_conv'
        map_of_foldl_consequence_CQ split: option.splits if_splits)

lemma map_of_add_consequence_other:
  "k \<noteq> ''CQ'' \<Longrightarrow> map_of (add_consequence cs d) k = map_of d k"
  by (simp add: add_consequence_def Let_def update_conv' map_of_foldl_consequence_other)

lemma info_add_info:
  "info (add_info s text tgs) = add_consequence (consequence tgs) (info_with_filter s text)"
  by (simp add: add_info_def info_with_filter_def Let_def)

text \<open>
  C10, as the code has it.  After \<open>add_info\<close> the info dict holds FILTER, set from the
  filter status of the record, and CQ: the value of the last configured consequence tag
  other than CQ itself that the parsed dict holds, else the value the INFO text gave to
  CQ, else \<open>None\<close>; so the compound rule never raises KeyError.  The parsed dict
  maps a key to the value of its last entry in the text; an entry with \<open>=\<close> is split
  at its first \<open>=\<close>, an entry without is a flag set to True.
\<close>

theorem add_info_keys:
  "map_of (info (add_info s text tgs)) ''FILTER'' = Some (PStr (filter_status s))
   \<and> map_of (info (add_info s text tgs)) ''CQ''
       = Some (consequence_value (consequence tgs) (info_with_filter s text))
   \<and> passes_multiple_filter pf (add_info s text tgs) \<noteq> Inl KeyError
   \<and> map_of (parse_info text) = map_of (rev (map parse_item (split_on CHR '';'' text)))
   \<and> (CHR ''='' \<in> set item \<longrightarrow>
        parse_item item =
          (takeWhile (\<lambda>c. c \<noteq> CHR ''='') item, PStr (tl (dropWhile (\<lambda>c. c \<noteq> CHR ''='') item))))
   \<and> (CHR ''='' \<notin> set item \<longrightarrow> parse_item item = (item, PBool True))"
proof -
  have f: "map_of (info (add_info s text tgs)) ''FILTER'' = Some (PStr (filter_status s))"
    by (simp add: info_add_info map_of_add_consequence_other info_with_filter_def update_conv')
  have c: "map_of (info (add_info s text tgs)) ''CQ''
       = Some (consequence_value (consequence tgs) (info_with_filter s text))"
    by (simp add: info_add_info map_of_add_consequence_CQ)
  have k: "passes_multiple_filter pf (add_info s text tgs) \<noteq> Inl KeyError"
    by (auto simp: passes_multiple_filter_def c benign_missense_def Let_def
          split: sum.splits bool.splits option.splits pyval.splits)
  from f c k map_of_parse_info parse_item_first_eq parse_item_flag show ?thesis by blast
qed

text \<open>An INFO text with a number, a flag, a consequence and an entry with two \<open>=\<close>.\<close>

theorem add_info_keys_witness:
  "info (add_info (missense_record []) example_info_text example_tags)
     = [(''AC'', PStr ''2''), (''DB'', PBool True), (''VCQ'', PStr ''missense_variant''),
        (''PolyPhen'', PStr ''probably_damaging(0.99)''), (''X'', PStr ''a=b''),
        (''FILTER'', PStr ''PASS''), (''CQ'', PStr ''missense_variant'')]
   \<and> parse_item ''X=a=b'' = (''X'', PStr ''a=b'')
   \<and> parse_item ''DB'' = (''DB'', PBool True)"
  using add_info_keys [of "missense_record []" example_info_text example_tags double_float "''X=a=b''"]
    add_info_keys [of "missense_record []" example_info_text example_tags double_float "''DB''"]
  by (simp add: example_info_text_def example_defs add_info_def parse_info_def add_item_def
        parse_item_def add_consequence_def consequence_step_def Let_def)

text \<open>
  C10, as stated, fails: with VCQ the one configured consequence tag and the INFO text
  \<open>CQ=stop_gained\<close>, no configured tag is present, and CQ is not \<open>None\<close> but the
  value of the text.
\<close>

theorem add_info_consequence_counterexample:
  "map_of (info (add_info (missense_record []) ''CQ=stop_gained''
       \<lparr>consequence = [''VCQ''], MAX_MAF = []\<rparr>)) ''VCQ'' = None
   \<and> map_of (info (add_info (missense_record []) ''CQ=stop_gained''
       \<lparr>consequence = [''VCQ''], MAX_MAF = []\<rparr>)) ''CQ'' = Some (PStr ''stop_gained'')"
  by (simp add: example_defs add_info_def parse_info_def add_item_def
        parse_item_def add_consequence_def consequence_step_def Let_def)

section \<open>The parental variant\<close>

lemma split_on_prefix:
  "c \<notin> set x \<Longrightarrow> split_on c (x @ c # r) = x # split_on c r"
  by (induction x) (auto simp: Let_def)

lemma split_join:
  "xs \<noteq> [] \<Longrightarrow> \<forall>x \<in> set xs. c \<notin> set x \<Longrightarrow> split_on c (join_on c xs) = xs"
  by (induction c xs rule: join_on.induct) (auto simp: split_on_prefix split_on_no_sep)


lemma find_parental_no_key:
  "\<forall>parental \<in> set parental_vars. v_key parental \<noteq> v_key var \<Longrightarrow>
   find_parental var parental_vars = None"
  by (induction parental_vars) auto



text \<open>
  C5.  For a simple variant of the child with no parental variant of the same key,
  \<open>get_parental_var\<close> asks for a default SNV with the format key GT and the genotype
  \<open>0/0\<close>, with the child's chromosome, position, identifier, reference allele, quality,
  filter and info, with the parent's gender, and with the child's alternate alleles
  joined by commas; splitting that text at the commas gives the child's alleles back.
\<close>

theorem snv_parental_default:
  assumes "\<not> v_is_cnv var"
      and "\<forall>parental \<in> set parental_vars. v_key parental \<noteq> v_key var"
  shows "get_parental_var var parental_vars parent =
     Default SNV
       \<lparr>c_chrom = v_chrom var, c_position = v_position var,
        c_variant_id = v_variant_id var, c_ref_allele = v_ref_allele var,
        c_alts = join_on CHR '','' (v_alt_alleles var), c_qual = v_qual var,
        c_filter = v_filter var, c_info = v_info var, c_format_keys = ''GT'',
        c_sample = ''0/0'', c_gender = p_gender parent\<rparr>
     \<and> (v_alt_alleles var \<noteq> [] \<and> (\<forall>a \<in> set (v_alt_alleles var). CHR '','' \<notin> set a) \<longrightarrow>
          split_on CHR '','' (join_on CHR '','' (v_alt_alleles var)) = v_alt_alleles var)"
  using assms
  by (simp add: get_parental_var_def find_parental_no_key default_call_def split_join)

theorem snv_parental_default_witness:
  "get_parental_var (example_variant ''2'' 1000 [])
       [example_variant ''2'' 999 [], example_variant ''3'' 1000 []] example_mother
     = Default SNV
       \<lparr>c_chrom = ''2'', c_position = 1000, c_variant_id = ''.'', c_ref_allele = ''A'',
        c_alts = ''G'', c_qual = ''50'', c_filter = ''PASS'', c_info = ''DP=10'',
        c_format_keys = ''GT'', c_sample = ''0/0'', c_gender = ''F''\<rparr>"
  using snv_parental_default [of "example_variant ''2'' 1000 []"
          "[example_variant ''2'' 999 [], example_variant ''3'' 1000 []]" example_mother]
  by (simp add: example_variant_def example_mother_def)

section \<open>Loading the lines of a person\<close>

lemma scan_lines_append:
  "scan_lines pint cv passes dc dp keys g extra (pre @ rest) vs =
     (case scan_lines pint cv passes dc dp keys g extra pre vs of
        Inl e \<Rightarrow> Inl e
      | Inr vs' \<Rightarrow> scan_lines pint cv passes dc dp keys g extra rest vs')"
proof (induction pre arbitrary: vs)
  case Nil
  show ?case by simp
next
  case (Cons line pre)
  show ?case
    by (simp add: Cons.IH split: sum.splits option.splits pyerr.splits)
qed

lemma try_line_parent:
  "try_line pint cv passes line (Some keys) g extra =
     (case line_key pint line of
        Inl e \<Rightarrow> Inl e
      | Inr key \<Rightarrow>
          if key \<in> keys
          then (case cv line g extra of
                  Inl e \<Rightarrow> Inl e
                | Inr var \<Rightarrow> Inr (Some (var\<lparr>v_vcf_line := Some line\<rparr>)))
          else Inr None)"
  by (simp add: try_line_def include_variant_def split: sum.splits)


lemma handler_ok:
  "line_key pint line = Inr key \<Longrightarrow> \<exists>b. value_error_handler pint dc dp line = Inr b"
  by (auto simp: line_key_def value_error_handler_def split: list.splits option.splits)



lemmas loader_example_defs = example_mother_def example_father_def example_child_def
  example_family_def example_line_def example_variant_def example_constructor_def
  dec_int_def dec_nat_def digit_of_def reject_all_def accept_all_def



lemma scan_lines_skip:
  assumes "cv line g extra = Inl ValueError" and "line_key pint line = Inr key"
  shows "scan_lines pint cv passes dc dp child_variants g extra (line # post) vs
       = scan_lines pint cv passes dc dp child_variants g extra post vs"
proof -
  from handler_ok [OF assms(2)] obtain b where h: "value_error_handler pint dc dp line = Inr b"
    by blast
  show ?thesis
  proof (cases child_variants)
    case None
    with assms h show ?thesis
      by (simp add: try_line_def include_variant_def)
  next
    case (Some keys)
    with assms h show ?thesis
      by (simp add: try_line_parent)
  qed
qed

text \<open>
  C9.  A line whose variant cannot be built for a ValueError, the error of a genotype
  that cannot be set, adds no variant and does not stop the scan: the person loads as
  without that line, and a person of that line alone loads as the empty list, no error
  raised.  The line is taken to have a chromosome and an integer position, which the
  handler of the error reads again when the chromosome is the one under debug.
\<close>

theorem invalid_genotype_skipped:
  assumes "cv line (p_gender ind) extra = Inl ValueError"
      and "line_key pint line = Inr key"
      and "p_lines ind = pre @ line # post"
  shows "open_individual pint cv passes dc dp (Some ind) child_variants extra
       = open_individual pint cv passes dc dp (Some (ind\<lparr>p_lines := pre @ post\<rparr>))
           child_variants extra
     \<and> open_individual pint cv passes dc dp (Some (ind\<lparr>p_lines := [line]\<rparr>))
           child_variants extra = Inr []"
proof -
  have s: "scan_lines pint cv passes dc dp child_variants (p_gender ind) extra (line # rest) vs
         = scan_lines pint cv passes dc dp child_variants (p_gender ind) extra rest vs"
    for rest vs
    using assms(1,2) by (rule scan_lines_skip)
  have a: "scan_lines pint cv passes dc dp child_variants (p_gender ind) extra
             (pre @ line # post) []
         = scan_lines pint cv passes dc dp child_variants (p_gender ind) extra (pre @ post) []"
    unfolding scan_lines_append s ..
  have b: "scan_lines pint cv passes dc dp child_variants (p_gender ind) extra [line] [] = Inr []"
    unfolding s by simp
  show ?thesis
    using assms(3) a b by (simp add: open_individual_def del: scan_lines.simps)
qed

theorem invalid_genotype_skipped_witness:
  "example_constructor (example_line ''X'' ''200'' ''0/1'') ''M'' () = Inl ValueError
   \<and> open_individual dec_int example_constructor accept_all (Some ''X'') (Some 200)
       (Some example_child) None ()
     = Inr [example_variant ''2'' 1000 (example_line ''2'' ''1000'' ''0/1''),
            example_variant ''X'' 300 (example_line ''X'' ''300'' ''1/1'')]
   \<and> open_individual dec_int example_constructor accept_all (Some ''X'') (Some 200)
       (Some (example_child\<lparr>p_lines := [example_line ''X'' ''200'' ''0/1'']\<rparr>)) None ()
     = Inr []"
  using invalid_genotype_skipped
    [where cv = "example_constructor :: unit constructor" and pint = dec_int
       and line = "example_line ''X'' ''200'' ''0/1''" and ind = example_child
       and extra = "()" and key = "SnvKey ''X'' 200"
       and pre = "[example_line ''2'' ''1000'' ''0/1'']"
       and post = "[example_line ''X'' ''300'' ''1/1'']"
       and passes = accept_all and dc = "Some ''X''" and dp = "Some 200"
       and child_variants = None]
  by (simp add: loader_example_defs open_individual_def try_line_def
        include_variant_def line_key_def value_error_handler_def)

end
